theory Spec2Isabelle
  imports Main "HOL-Library.Word" "HOL-Library.Multiset"
begin

section \<open>JavaScript strings and arrays\<close>

text \<open>
  A JavaScript string is a sequence of UTF-16 code units. The identifiers the program
  compares against (\<open>"all"\<close>, \<open>"WATCH"\<close>, ...) are ASCII and are written with \<open>js\<close>;
  Japanese text is written as its code units.
\<close>

type_synonym jsstring = "16 word list"

definition js :: "string \<Rightarrow> jsstring" where
  "js s = map of_char s"

text \<open>\<open>s.includes(q)\<close> (named \<open>includes_js\<close> here): \<open>q\<close> occurs in \<open>s\<close> as a contiguous run of code units.\<close>

fun startsWith :: "jsstring \<Rightarrow> jsstring \<Rightarrow> bool" where
  "startsWith s [] = True"
| "startsWith [] (c # q) = False"
| "startsWith (x # s) (c # q) = (x = c \<and> startsWith s q)"

fun includes_js :: "jsstring \<Rightarrow> jsstring \<Rightarrow> bool" where
  "includes_js [] q = (q = [])"
| "includes_js (x # s) q = (startsWith (x # s) q \<or> includes_js s q)"

text \<open>
  \<open>s.trim()\<close> removes the leading and trailing code units that ECMAScript counts as
  white space or line terminators.
\<close>

definition isWhiteSpace :: "16 word \<Rightarrow> bool" where
  "isWhiteSpace c =
     (c \<in> set [0x0009, 0x000A, 0x000B, 0x000C, 0x000D, 0x0020, 0x00A0, 0x1680,
               0x2028, 0x2029, 0x202F, 0x205F, 0x3000, 0xFEFF]
      \<or> (0x2000 \<le> c \<and> c \<le> 0x200A))"

definition trim :: "jsstring \<Rightarrow> jsstring" where
  "trim s = rev (dropWhile isWhiteSpace (rev (dropWhile isWhiteSpace s)))"

text \<open>\<open>xs.join(sep)\<close> on an array of strings.\<close>

fun join :: "jsstring \<Rightarrow> jsstring list \<Rightarrow> jsstring" where
  "join sep [] = []"
| "join sep [x] = x"
| "join sep (x # y # ys) = x @ sep @ join sep (y # ys)"

text \<open>
  \<open>xs.filter(Boolean)\<close> on an array whose entries are strings or \<open>undefined\<close>: the
  falsy entries, \<open>undefined\<close> and the empty string, are dropped.
\<close>

fun filter_Boolean :: "jsstring option list \<Rightarrow> jsstring list" where
  "filter_Boolean [] = []"
| "filter_Boolean (None # xs) = filter_Boolean xs"
| "filter_Boolean (Some s # xs) = (if s = [] then filter_Boolean xs else s # filter_Boolean xs)"

text \<open>\<open>(xs || [])\<close> for an optional array (an empty array is truthy).\<close>

definition orEmpty :: "'a list option \<Rightarrow> 'a list" where
  "orEmpty xs = (case xs of None \<Rightarrow> [] | Some ys \<Rightarrow> ys)"

text \<open>\<open>(s || d)\<close> for an optional string: absent and empty strings are falsy.\<close>

definition orElse :: "jsstring option \<Rightarrow> jsstring \<Rightarrow> jsstring" where
  "orElse x d = (case x of None \<Rightarrow> d | Some s \<Rightarrow> if s = [] then d else s)"

text \<open>The entries of an array that are objects (not \<open>null\<close>).\<close>

fun present :: "'a option list \<Rightarrow> 'a list" where
  "present [] = []"
| "present (None # xs) = present xs"
| "present (Some x # xs) = x # present xs"


section \<open>src/LawTracker.jsx\<close>

text \<open>
  An element of \<open>/data/items.json\<close>, with the fields that \<open>filtered\<close> reads. Every field
  may be absent. \<open>updated_at\<close> holds the time value of the field, the milliseconds since
  the epoch that \<open>new Date(it.updated_at).getTime()\<close> returns, and is \<open>None\<close> when the
  field is absent or empty (falsy); strings that \<open>Date\<close> cannot parse are outside the
  model. The fields used only for rendering (\<open>id\<close>, \<open>risk_if_delayed\<close>, \<open>sources\<close>,
  \<open>actions\<close>) are left out.
\<close>

record item =
  title :: "jsstring option"
  topic :: "jsstring option"
  law_family :: "jsstring option"
  summary_3 :: "jsstring list option"
  target :: "jsstring list option"
  tags :: "jsstring list option"
  process :: "jsstring option"
  action :: "jsstring option"
  updated_at :: "int option"

text \<open>
  \<open>daysBetween(a, b)\<close> on the two time values. All the numbers are integers; the
  floating-point division agrees with integer division on every pair of time values a
  \<open>Date\<close> can hold up to the point where \<open>Math.min(100, _)\<close> saturates.
\<close>

definition daysBetween :: "int \<Rightarrow> int \<Rightarrow> int" where
  "daysBetween a b = (let ms = \<bar>a - b\<bar> in ms div (1000 * 60 * 60 * 24))"

text \<open>
  The text that the search box is matched against: the array literal of \<open>blob\<close>, then
  \<open>.filter(Boolean).join(" ")\<close>.
\<close>

definition blob_fields :: "item \<Rightarrow> jsstring option list" where
  "blob_fields it =
     [item.title it, topic it, law_family it]
     @ map Some (orEmpty (summary_3 it))
     @ map Some (orEmpty (target it))
     @ map Some (orEmpty (tags it))"

definition blob :: "item \<Rightarrow> jsstring" where
  "blob it = join (js '' '') (filter_Boolean (blob_fields it))"

text \<open>
  The callback of \<open>items.filter\<close>; \<open>qq\<close> is the trimmed search text, \<open>process'\<close> and
  \<open>action'\<close> are the two selections.
\<close>

definition keep :: "jsstring \<Rightarrow> jsstring \<Rightarrow> jsstring \<Rightarrow> item option \<Rightarrow> bool" where
  "keep qq process' action' x =
     (case x of
        None \<Rightarrow> False
      | Some it \<Rightarrow>
          if process' \<noteq> js ''all'' \<and> process it \<noteq> Some process' then False
          else if action' \<noteq> js ''all'' \<and> action it \<noteq> Some action' then False
          else if qq = [] then True
          else includes_js (blob it) qq)"

text \<open>
  The callback of the first \<open>map\<close>: the score of a record; \<open>now\<close> is the time value of
  today's date (UTC midnight). \<open>urgency\<close> is its \<open>actScore\<close>, \<open>days\<close> the
  \<open>daysBetween(updated, now)\<close> inside \<open>recency\<close>.
\<close>

definition actScore :: "jsstring \<Rightarrow> int" where
  "actScore act =
     (if act = js ''ACT_NOW'' then 4
      else if act = js ''PREPARE'' then 3
      else if act = js ''WATCH'' then 2
      else 1)"

definition urgency :: "item \<Rightarrow> int" where
  "urgency it = (let act = orElse (action it) (js ''WATCH'') in actScore act)"

definition days :: "int \<Rightarrow> item \<Rightarrow> int" where
  "days now it =
     (let updated = (case updated_at it of None \<Rightarrow> now | Some t \<Rightarrow> t)
      in daysBetween updated now)"

definition recency :: "int \<Rightarrow> item \<Rightarrow> int" where
  "recency now it = 100 - min 100 (days now it)"

definition score :: "int \<Rightarrow> item \<Rightarrow> int" where
  "score now it = urgency it * 1000 + recency now it"

text \<open>
  \<open>filtered\<close>: filter, score, sort by descending score, project. \<open>Array.prototype.sort\<close>
  is a stable sort; the comparator \<open>b.score - a.score\<close> orders by descending score,
  which is ascending order of the negated score.
\<close>

definition filtered :: "jsstring \<Rightarrow> jsstring \<Rightarrow> jsstring \<Rightarrow> int \<Rightarrow> item option list \<Rightarrow> item list" where
  "filtered q process' action' now items =
     (let qq = trim q;
          scored =
            map fst
              (sort_key (\<lambda>x. - snd x)
                 (map (\<lambda>it. (it, score now it))
                    (present (filter (keep qq process' action') items))))
      in scored)"

subsection \<open>The arrays of \<open>filtered\<close> as a store\<close>

text \<open>
  \<open>filter\<close> and \<open>map\<close> return a new array; \<open>sort\<close> sorts the array it is called on in
  place and returns that same array. The store is the list of all arrays, an array's
  address is its index; allocation appends. An element of an array of \<open>filtered\<close> is a
  snapshot entry or one of the \<open>{ it, score }\<close> objects of the first \<open>map\<close>.
\<close>

type_synonym 'c store = "'c list list"

definition array_filter :: "('c \<Rightarrow> bool) \<Rightarrow> nat \<Rightarrow> 'c store \<Rightarrow> nat \<times> 'c store" where
  "array_filter p a h = (length h, h @ [filter p (h ! a)])"

definition array_map :: "('c \<Rightarrow> 'c) \<Rightarrow> nat \<Rightarrow> 'c store \<Rightarrow> nat \<times> 'c store" where
  "array_map f a h = (length h, h @ [map f (h ! a)])"

definition array_sort :: "('c \<Rightarrow> int) \<Rightarrow> nat \<Rightarrow> 'c store \<Rightarrow> nat \<times> 'c store" where
  "array_sort k a h = (a, h[a := sort_key k (h ! a)])"

datatype cell = Item "item option" | Scored item int

text \<open>
  The callbacks on cells. Each is applied only to cells of the shape the preceding step
  produces; on the other shape \<open>keep_cell\<close> rejects and the others return their argument.
\<close>

definition keep_cell :: "jsstring \<Rightarrow> jsstring \<Rightarrow> jsstring \<Rightarrow> cell \<Rightarrow> bool" where
  "keep_cell qq process' action' c =
     (case c of Item x \<Rightarrow> keep qq process' action' x | Scored it s \<Rightarrow> False)"

definition score_cell :: "int \<Rightarrow> cell \<Rightarrow> cell" where
  "score_cell now c =
     (case c of Item (Some it) \<Rightarrow> Scored it (score now it) | Item None \<Rightarrow> c | Scored it s \<Rightarrow> c)"

definition cell_score :: "cell \<Rightarrow> int" where
  "cell_score c = (case c of Scored it s \<Rightarrow> s | Item x \<Rightarrow> 0)"

definition cell_it :: "cell \<Rightarrow> cell" where
  "cell_it c = (case c of Scored it s \<Rightarrow> Item (Some it) | Item x \<Rightarrow> c)"

definition filtered_store ::
  "jsstring \<Rightarrow> jsstring \<Rightarrow> jsstring \<Rightarrow> int \<Rightarrow> nat \<Rightarrow> cell store \<Rightarrow> nat \<times> cell store" where
  "filtered_store q process' action' now items h =
     (let qq = trim q;
          (a1, h1) = array_filter (keep_cell qq process' action') items h;
          (a2, h2) = array_map (score_cell now) a1 h1;
          (a3, h3) = array_sort (\<lambda>x. - cell_score x) a2 h2;
          (scored, h4) = array_map cell_it a3 h3
      in (scored, h4))"


section \<open>safety-law-tracker-fixed.jsx\<close>

text \<open>
  An entry of \<open>revisionStages\<close> (its presentation fields \<open>icon\<close>, \<open>bgClass\<close>,
  \<open>textClass\<close>, \<open>borderColor\<close>, \<open>description\<close> and \<open>detail\<close> are left out) and an
  entry of \<open>sampleRevisions\<close>. The field \<open>id\<close> is \<open>id_stage\<close> and \<open>id_rev\<close> here.
\<close>

record stageInfo =
  id_stage :: jsstring
  name :: jsstring

record revision =
  id_rev :: nat
  lawName :: jsstring
  title :: jsstring
  stage :: jsstring
  promulgationDate :: "jsstring option"
  enforcementDate :: "jsstring option"
  description :: jsstring
  officialUrl :: jsstring
  highlights :: "jsstring list option"

definition revisionStages :: "stageInfo list" where
  "revisionStages =
     [\<lparr>id_stage = js ''consideration'',
       name =
         [0x691C, 0x8A0E, 0x6BB5, 0x968E]\<rparr>,
      \<lparr>id_stage = js ''public_comment'',
       name =
         [0x30D1, 0x30D6, 0x30EA, 0x30C3, 0x30AF, 0x30B3, 0x30E1, 0x30F3, 0x30C8]\<rparr>,
      \<lparr>id_stage = js ''deliberation'',
       name =
         [0x56FD, 0x4F1A, 0x5BE9, 0x8B70, 0x4E2D]\<rparr>,
      \<lparr>id_stage = js ''promulgated'',
       name =
         [0x516C, 0x5E03, 0x6E08, 0x307F]\<rparr>,
      \<lparr>id_stage = js ''enforcement_scheduled'',
       name =
         [0x65BD, 0x884C, 0x4E88, 0x5B9A]\<rparr>,
      \<lparr>id_stage = js ''enforced'',
       name =
         [0x65BD, 0x884C, 0x6E08, 0x307F]\<rparr>]"

definition sampleRevision0 :: revision where
  "sampleRevision0 =
     \<lparr>id_rev = 0,
      lawName =
        [0x52B4, 0x50CD, 0x5B89, 0x5168, 0x885B, 0x751F, 0x898F, 0x5247],
      title =
        [0x0041, 0x0049, 0x30FB, 0x30ED, 0x30DC, 0x30C3, 0x30C8, 0x6280, 0x8853, 0x306E,
         0x9032, 0x5C55, 0x306B, 0x4F34, 0x3046, 0x5B89, 0x5168, 0x898F, 0x5236,
         0x306E, 0x5728, 0x308A, 0x65B9, 0x691C, 0x8A0E],
      stage = js ''consideration'',
      promulgationDate = None,
      enforcementDate = None,
      description =
        [0x52B4, 0x50CD, 0x653F, 0x7B56, 0x5BE9, 0x8B70, 0x4F1A, 0x5B89, 0x5168, 0x885B,
         0x751F, 0x5206, 0x79D1, 0x4F1A, 0x3067, 0x3001, 0x0041, 0x0049, 0x30FB,
         0x5354, 0x50CD, 0x30ED, 0x30DC, 0x30C3, 0x30C8, 0x7B49, 0x306E, 0x65B0,
         0x6280, 0x8853, 0x306B, 0x5BFE, 0x5FDC, 0x3057, 0x305F, 0x5B89, 0x5168,
         0x57FA, 0x6E96, 0x306E, 0x691C, 0x8A0E, 0x3092, 0x958B, 0x59CB],
      officialUrl =
        js ''https://www.mhlw.go.jp/stf/shingi/shingi-rousei_126969.html'',
      highlights =
        None\<rparr>"

definition sampleRevision1 :: revision where
  "sampleRevision1 =
     \<lparr>id_rev = 1,
      lawName =
        [0x52B4, 0x50CD, 0x5B89, 0x5168, 0x885B, 0x751F, 0x6CD5, 0x53CA, 0x3073, 0x4F5C,
         0x696D, 0x74B0, 0x5883, 0x6E2C, 0x5B9A, 0x6CD5],
      title =
        [0x52B4, 0x50CD, 0x5B89, 0x5168, 0x885B, 0x751F, 0x6CD5, 0x53CA, 0x3073, 0x4F5C,
         0x696D, 0x74B0, 0x5883, 0x6E2C, 0x5B9A, 0x6CD5, 0x306E, 0x4E00, 0x90E8,
         0x3092, 0x6539, 0x6B63, 0x3059, 0x308B, 0x6CD5, 0x5F8B, 0xFF08, 0x4EE4,
         0x548C, 0x0037, 0x5E74, 0x6CD5, 0x5F8B, 0x7B2C, 0x0033, 0x0033, 0x53F7,
         0xFF09],
      stage = js ''promulgated'',
      promulgationDate = Some (js ''2025-05-14''),
      enforcementDate = Some (js ''2026-04-01''),
      description =
        [0x500B, 0x4EBA, 0x4E8B, 0x696D, 0x8005, 0x7B49, 0x306B, 0x5BFE, 0x3059, 0x308B,
         0x5B89, 0x5168, 0x885B, 0x751F, 0x5BFE, 0x7B56, 0x306E, 0x63A8, 0x9032,
         0x3001, 0x0035, 0x0030, 0x4EBA, 0x672A, 0x6E80, 0x4E8B, 0x696D, 0x5834,
         0x3067, 0x306E, 0x30B9, 0x30C8, 0x30EC, 0x30B9, 0x30C1, 0x30A7, 0x30C3,
         0x30AF, 0x7FA9, 0x52D9, 0x5316, 0x306A, 0x3069],
      officialUrl =
        js ''https://www.mhlw.go.jp/stf/seisakunitsuite/bunya/koyou_roudou/roudoukijun/anzen/an-eihou/index_00001.html'',
      highlights =
        Some
          [[0x30D5, 0x30EA, 0x30FC, 0x30E9, 0x30F3, 0x30B9, 0x3078, 0x306E, 0x5B89, 0x5168,
            0x885B, 0x751F, 0x5BFE, 0x7B56],
           [0x0035, 0x0030, 0x4EBA, 0x672A, 0x6E80, 0x4E8B, 0x696D, 0x5834, 0x3067, 0x306E,
            0x30B9, 0x30C8, 0x30EC, 0x30B9, 0x30C1, 0x30A7, 0x30C3, 0x30AF,
            0x7FA9, 0x52D9, 0x5316],
           [0x5316, 0x5B66, 0x7269, 0x8CEA, 0x7BA1, 0x7406, 0x306E, 0x5F37, 0x5316]]\<rparr>"

definition sampleRevision2 :: revision where
  "sampleRevision2 =
     \<lparr>id_rev = 2,
      lawName =
        [0x52B4, 0x50CD, 0x5B89, 0x5168, 0x885B, 0x751F, 0x898F, 0x5247],
      title =
        [0x52B4, 0x50CD, 0x5B89, 0x5168, 0x885B, 0x751F, 0x898F, 0x5247, 0x306E, 0x4E00,
         0x90E8, 0x6539, 0x6B63, 0xFF08, 0x71B1, 0x4E2D, 0x75C7, 0x5BFE, 0x7B56,
         0x306E, 0x5F37, 0x5316, 0xFF09],
      stage = js ''enforced'',
      promulgationDate = Some (js ''2025-05-20''),
      enforcementDate = Some (js ''2025-06-01''),
      description =
        [0x8077, 0x5834, 0x306B, 0x304A, 0x3051, 0x308B, 0x71B1, 0x4E2D, 0x75C7, 0x5BFE,
         0x7B56, 0x306E, 0x5F37, 0x5316, 0x306B, 0x3064, 0x3044, 0x3066, 0x3001,
         0x0057, 0x0042, 0x0047, 0x0054, 0x5024, 0x306B, 0x57FA, 0x3065, 0x304F,
         0x4E88, 0x9632, 0x63AA, 0x7F6E, 0x306E, 0x7FA9, 0x52D9, 0x5316],
      officialUrl =
        js ''https://www.mhlw.go.jp/stf/seisakunitsuite/bunya/koyou_roudou/roudoukijun/anzen/index.html'',
      highlights =
        None\<rparr>"

definition sampleRevision3 :: revision where
  "sampleRevision3 =
     \<lparr>id_rev = 3,
      lawName =
        [0x7279, 0x5B9A, 0x5316, 0x5B66, 0x7269, 0x8CEA, 0x969C, 0x5BB3, 0x4E88, 0x9632,
         0x898F, 0x5247, 0x7B49],
      title =
        [0x5316, 0x5B66, 0x7269, 0x8CEA, 0x306B, 0x3088, 0x308B, 0x52B4, 0x50CD, 0x707D,
         0x5BB3, 0x9632, 0x6B62, 0x306E, 0x305F, 0x3081, 0x306E, 0x65B0, 0x305F,
         0x306A, 0x898F, 0x5236],
      stage = js ''enforcement_scheduled'',
      promulgationDate = Some (js ''2024-02-24''),
      enforcementDate = Some (js ''2026-04-01''),
      description =
        [0x30E9, 0x30D9, 0x30EB, 0x8868, 0x793A, 0x30FB, 0x0053, 0x0044, 0x0053, 0x4EA4,
         0x4ED8, 0x7FA9, 0x52D9, 0x5BFE, 0x8C61, 0x7269, 0x8CEA, 0x306E, 0x8FFD,
         0x52A0, 0xFF08, 0x7D04, 0x0037, 0x0030, 0x0030, 0x7269, 0x8CEA, 0x8FFD,
         0x52A0, 0x3001, 0x5408, 0x8A08, 0x7D04, 0x0031, 0x002C, 0x0036, 0x0030,
         0x0030, 0x7269, 0x8CEA, 0xFF09],
      officialUrl =
        js ''https://www.mhlw.go.jp/stf/seisakunitsuite/bunya/0000099121_00005.html'',
      highlights =
        Some
          [[0x0032, 0x0030, 0x0032, 0x0036, 0x5E74, 0x0034, 0x6708, 0xFF1A, 0x3055, 0x3089,
            0x306B, 0x7D04, 0x0038, 0x0035, 0x0030, 0x7269, 0x8CEA, 0x8FFD,
            0x52A0, 0x4E88, 0x5B9A],
           [0x0053, 0x0044, 0x0053, 0x4EA4, 0x4ED8, 0x7FA9, 0x52D9, 0x9055, 0x53CD, 0x3078,
            0x306E, 0x7F70, 0x5247, 0x65B0, 0x8A2D],
           [0x5316, 0x5B66, 0x7269, 0x8CEA, 0x7BA1, 0x7406, 0x8005, 0x306E, 0x9078, 0x4EFB,
            0x7FA9, 0x52D9]]\<rparr>"

definition sampleRevisions :: "revision list" where
  "sampleRevisions = [sampleRevision0, sampleRevision1, sampleRevision2, sampleRevision3]"

text \<open>
  \<open>filteredRevisions\<close>, with the snapshot (the constant \<open>sampleRevisions\<close> in the source)
  as a parameter.
\<close>

definition filteredRevisions :: "revision list \<Rightarrow> jsstring \<Rightarrow> jsstring \<Rightarrow> revision list" where
  "filteredRevisions revs searchTerm selectedStage =
     filter
       (\<lambda>revision.
          let matchesSearch =
                (includes_js (revision.title revision) searchTerm
                 \<or> includes_js (description revision) searchTerm);
              matchesStage = (selectedStage = js ''all'' \<or> stage revision = selectedStage)
          in matchesSearch \<and> matchesStage)
       revs"




text \<open>\<open>filteredRevisions\<close> on the store: the one \<open>filter\<close> allocates its result.\<close>

definition filteredRevisions_store ::
  "jsstring \<Rightarrow> jsstring \<Rightarrow> nat \<Rightarrow> revision store \<Rightarrow> nat \<times> revision store" where
  "filteredRevisions_store searchTerm selectedStage revs h =
     array_filter
       (\<lambda>revision.
          let matchesSearch =
                (includes_js (revision.title revision) searchTerm
                 \<or> includes_js (description revision) searchTerm);
              matchesStage = (selectedStage = js ''all'' \<or> stage revision = selectedStage)
          in matchesSearch \<and> matchesStage)
       revs h"


section \<open>The specification's wording\<close>

text \<open>The stage and action names of the specification.\<close>

definition spec_stages :: "jsstring list" where
  "spec_stages =
     [js ''considering'', js ''public_comment'', js ''in_diet'', js ''promulgated'',
      js ''enforcement_planned'', js ''enforced'']"



text \<open>The search text of the specification's example, U+5316 U+5B66 U+7269 U+8CEA.\<close>

definition kagaku_busshitsu :: jsstring where
  "kagaku_busshitsu = [0x5316, 0x5B66, 0x7269, 0x8CEA]"


section \<open>Example records\<close>

text \<open>
  Records and a date for the concrete evaluations below: \<open>ex_now\<close> is the time value of
  2024-10-04 (day 20000 after the epoch).
\<close>

definition ex_now :: int where
  "ex_now = 20000 * 86400000"

definition no_fields :: item where
  "no_fields =
     \<lparr>item.title = None, topic = None, law_family = None, summary_3 = None, target = None,
      tags = None, process = None, action = None, updated_at = None\<rparr>"

definition ex_old200 :: item where
  "ex_old200 =
     no_fields\<lparr>item.title := Some (js ''A''), action := Some (js ''WATCH''),
       updated_at := Some (19800 * 86400000)\<rparr>"

definition ex_old150 :: item where
  "ex_old150 =
     no_fields\<lparr>item.title := Some (js ''B''), action := Some (js ''WATCH''),
       updated_at := Some (19850 * 86400000)\<rparr>"

definition ex_yesterday :: item where
  "ex_yesterday =
     no_fields\<lparr>item.title := Some (js ''C''), action := Some (js ''WATCH''),
       updated_at := Some (19999 * 86400000)\<rparr>"

definition ex_undated :: item where
  "ex_undated = no_fields\<lparr>item.title := Some (js ''D''), action := Some (js ''WATCH'')\<rparr>"

definition ex_no_action :: item where
  "ex_no_action = no_fields\<lparr>item.title := Some (js ''E'')\<rparr>"

definition ex_act_now :: item where
  "ex_act_now =
     no_fields\<lparr>item.title := Some (js ''F''), action := Some (js ''ACT_NOW''),
       updated_at := Some (19000 * 86400000)\<rparr>"

definition ex_chemical :: item where
  "ex_chemical =
     no_fields\<lparr>item.title := Some (js ''SDS '' @ kagaku_busshitsu),
       process := Some (js ''promulgated''), action := Some (js ''PREPARE''),
       updated_at := Some (19997 * 86400000)\<rparr>"

definition ex_two_fields :: item where
  "ex_two_fields = no_fields\<lparr>item.title := Some (js ''ab''), law_family := Some (js ''cd'')\<rparr>"


section \<open>Auxiliary facts\<close>

subsection \<open>Substrings\<close>




subsection \<open>Filtering and sorting\<close>

lemma insort_key_map:
  "insort_key k (g a) (map g ys) = map g (insort_key (\<lambda>x. k (g x)) a ys)"
  by (induction ys) auto

lemma sort_key_map:
  "sort_key k (map g xs) = map g (sort_key (\<lambda>x. k (g x)) xs)"
  by (induction xs) (auto simp: insort_key_map)

lemma filtered_sort:
  "filtered q process' action' now items =
     sort_key (\<lambda>it. - score now it) (present (filter (keep (trim q) process' action') items))"
  by (simp add: filtered_def sort_key_map o_def)

lemma present_filter:
  "present (filter P xs) = filter (\<lambda>it. P (Some it)) (present xs)"
proof (induction xs)
  case Nil
  then show ?case by simp
next
  case (Cons x xs)
  then show ?case by (cases x) auto
qed

lemma set_present: "set (present xs) = {it. Some it \<in> set xs}"
proof (induction xs)
  case Nil
  then show ?case by simp
next
  case (Cons x xs)
  then show ?case by (cases x) auto
qed

lemma keep_None: "\<not> keep qq process' action' None"
  by (simp add: keep_def)

lemma filter_keep_Some:
  "filter (keep qq process' action') items =
     map Some (present (filter (keep qq process' action') items))"
proof (induction items)
  case Nil
  then show ?case by simp
next
  case (Cons x xs)
  then show ?case by (cases x) (auto simp: keep_None)
qed

lemma keep_Some_iff:
  "keep qq process' action' (Some it) \<longleftrightarrow>
     (process' = js ''all'' \<or> process it = Some process')
     \<and> (action' = js ''all'' \<or> action it = Some action')
     \<and> (qq = [] \<or> includes_js (blob it) qq)"
  by (auto simp: keep_def)

subsection \<open>Scores\<close>

lemma actScore_range: "1 \<le> actScore a \<and> actScore a \<le> 4"
  by (simp add: actScore_def)

lemma urgency_range: "1 \<le> urgency it \<and> urgency it \<le> 4"
  by (simp add: urgency_def Let_def actScore_range)






lemma set_filtered:
  "set (filtered q process' action' now items) =
     {it. Some it \<in> set items \<and> keep (trim q) process' action' (Some it)}"
  by (auto simp: filtered_sort present_filter set_present)


subsection \<open>The store\<close>

lemma map_score_cell:
  "map (score_cell now) (map Item (map Some ys)) = map (\<lambda>it. Scored it (score now it)) ys"
  by (simp add: score_cell_def)

lemma filter_keep_cell:
  "filter (keep_cell qq process' action') (map Item xs) =
     map Item (map Some (present (filter (keep qq process' action') xs)))"
proof -
  have "filter (keep_cell qq process' action') (map Item xs) =
          map Item (filter (keep qq process' action') xs)"
    by (simp add: filter_map o_def keep_cell_def)
  also have "\<dots> = map Item (map Some (present (filter (keep qq process' action') xs)))"
    using filter_keep_Some [of qq process' action' xs] by simp
  finally show ?thesis .
qed

lemma sort_scored_cells:
  "map cell_it (sort_key (\<lambda>x. - cell_score x) (map (\<lambda>it. Scored it (f it)) ys)) =
     map (\<lambda>it. Item (Some it)) (sort_key (\<lambda>it. - f it) ys)"
  by (simp add: sort_key_map cell_score_def cell_it_def o_def)

subsection \<open>The search text and the stage buttons\<close>






lemma stage_ids:
  "map id_stage revisionStages =
     [js ''consideration'', js ''public_comment'', js ''deliberation'', js ''promulgated'',
      js ''enforcement_scheduled'', js ''enforced'']"
  by (simp add: revisionStages_def)

lemma sample_stages:
  "map stage sampleRevisions =
     [js ''consideration'', js ''promulgated'', js ''enforced'', js ''enforcement_scheduled'']"
  by (simp add: sampleRevisions_def sampleRevision0_def sampleRevision1_def
      sampleRevision2_def sampleRevision3_def)

subsection \<open>Unfolding for concrete evaluation\<close>

lemmas ex_defs = ex_now_def no_fields_def ex_old200_def ex_old150_def ex_yesterday_def
  ex_undated_def ex_no_action_def ex_act_now_def ex_chemical_def ex_two_fields_def

lemmas eval_defs = filtered_sort trim_def isWhiteSpace_def keep_def blob_def blob_fields_def
  orEmpty_def orElse_def score_def urgency_def actScore_def recency_def days_def
  daysBetween_def js_def kagaku_busshitsu_def


section \<open>Claims\<close>

subsection \<open>Filtering is the conjunction of the criteria\<close>

text \<open>
  C1. \<open>filtered\<close> returns exactly the records of the snapshot (with their multiplicity, the
  \<open>null\<close> entries apart) that pass all three criteria at once: the stage selection, the
  action selection and the search text, where the selection \<open>"all"\<close> and a search text that
  is empty after trimming impose no constraint. In particular the query for the stage
  \<open>"promulgated"\<close> and the search text U+5316 U+5B66 U+7269 U+8CEA returns exactly the
  records whose stage is \<open>"promulgated"\<close> and whose search text contains these four
  characters. \<open>filteredRevisions\<close> returns, in snapshot order, exactly the revisions that
  pass both its stage selection and its search term.
\<close>

theorem query_conjunction_of_criteria:
  "mset (filtered q process' action' now items) =
     filter_mset
       (\<lambda>it. (process' = js ''all'' \<or> process it = Some process')
             \<and> (action' = js ''all'' \<or> action it = Some action')
             \<and> (trim q = [] \<or> includes_js (blob it) (trim q)))
       (mset (present items))
   \<and> mset (filtered kagaku_busshitsu (js ''promulgated'') (js ''all'') now items) =
     filter_mset
       (\<lambda>it. process it = Some (js ''promulgated'') \<and> includes_js (blob it) kagaku_busshitsu)
       (mset (present items))
   \<and> filteredRevisions revs searchTerm selectedStage =
     filter
       (\<lambda>r. (selectedStage = js ''all'' \<or> stage r = selectedStage)
            \<and> (includes_js (revision.title r) searchTerm \<or> includes_js (description r) searchTerm))
       revs"
proof -
  have general: "mset (filtered q' p a now items) =
     filter_mset
       (\<lambda>it. (p = js ''all'' \<or> process it = Some p)
             \<and> (a = js ''all'' \<or> action it = Some a)
             \<and> (trim q' = [] \<or> includes_js (blob it) (trim q')))
       (mset (present items))" for q' p a
    by (simp add: filtered_sort present_filter keep_Some_iff)
  have trim_k: "trim kagaku_busshitsu = kagaku_busshitsu"
    by (simp add: trim_def kagaku_busshitsu_def isWhiteSpace_def)
  have ne: "kagaku_busshitsu \<noteq> []" "js ''promulgated'' \<noteq> js ''all''"
    by (simp_all add: kagaku_busshitsu_def js_def)
  have example: "mset (filtered kagaku_busshitsu (js ''promulgated'') (js ''all'') now items) =
     filter_mset
       (\<lambda>it. process it = Some (js ''promulgated'') \<and> includes_js (blob it) kagaku_busshitsu)
       (mset (present items))"
    unfolding general trim_k using ne by simp
  have fixed: "filteredRevisions revs searchTerm selectedStage =
     filter
       (\<lambda>r. (selectedStage = js ''all'' \<or> stage r = selectedStage)
            \<and> (includes_js (revision.title r) searchTerm \<or> includes_js (description r) searchTerm))
       revs"
    by (auto simp: filteredRevisions_def Let_def intro: filter_cong)
  from general example fixed show ?thesis by blast
qed

text \<open>
  On a snapshot of two records and a \<open>null\<close> entry the example query returns the one
  promulgated record about chemical substances. On \<open>sampleRevisions\<close> the search term
  alone selects the fourth revision, whose stage is \<open>"enforcement_scheduled"\<close>, and
  together with the stage \<open>"promulgated"\<close> it selects nothing: the one promulgated
  revision has the four characters in its highlights only, which \<open>filteredRevisions\<close>
  does not search.
\<close>

theorem query_conjunction_of_criteria_witness:
  "mset (filtered kagaku_busshitsu (js ''promulgated'') (js ''all'') ex_now
           [Some ex_old200, None, Some ex_chemical]) = {#ex_chemical#}
   \<and> filteredRevisions sampleRevisions kagaku_busshitsu (js ''all'') = [sampleRevision3]
   \<and> filteredRevisions sampleRevisions kagaku_busshitsu (js ''promulgated'') = []"
proof -
  have "filter_mset
       (\<lambda>it. process it = Some (js ''promulgated'') \<and> includes_js (blob it) kagaku_busshitsu)
       (mset (present [Some ex_old200, None, Some ex_chemical])) = {#ex_chemical#}"
    by (simp add: ex_defs eval_defs)
  then have law: "mset (filtered kagaku_busshitsu (js ''promulgated'') (js ''all'') ex_now
           [Some ex_old200, None, Some ex_chemical]) = {#ex_chemical#}"
    using query_conjunction_of_criteria
      [of "[]" "js ''all''" "js ''all''" ex_now "[Some ex_old200, None, Some ex_chemical]"]
    by simp
  have "filter
       (\<lambda>r. (js ''all'' = js ''all'' \<or> stage r = js ''all'')
            \<and> (includes_js (revision.title r) kagaku_busshitsu
                 \<or> includes_js (description r) kagaku_busshitsu))
       sampleRevisions = [sampleRevision3]"
    by (simp add: sampleRevisions_def sampleRevision0_def sampleRevision1_def
        sampleRevision2_def sampleRevision3_def kagaku_busshitsu_def)
  then have every: "filteredRevisions sampleRevisions kagaku_busshitsu (js ''all'')
      = [sampleRevision3]"
    using query_conjunction_of_criteria [of "[]" "js ''all''" "js ''all''" ex_now "[]"
        sampleRevisions kagaku_busshitsu "js ''all''"]
    by simp
  have "filter
       (\<lambda>r. (js ''promulgated'' = js ''all'' \<or> stage r = js ''promulgated'')
            \<and> (includes_js (revision.title r) kagaku_busshitsu
                 \<or> includes_js (description r) kagaku_busshitsu))
       sampleRevisions = []"
    by (simp add: sampleRevisions_def sampleRevision0_def sampleRevision1_def
        sampleRevision2_def sampleRevision3_def kagaku_busshitsu_def js_def)
  then have promulgated: "filteredRevisions sampleRevisions kagaku_busshitsu (js ''promulgated'')
      = []"
    using query_conjunction_of_criteria [of "[]" "js ''all''" "js ''all''" ex_now "[]"
        sampleRevisions kagaku_busshitsu "js ''promulgated''"]
    by simp
  from law every promulgated show ?thesis by blast
qed

subsection \<open>Ranking order\<close>




subsection \<open>The search criterion\<close>




subsection \<open>Stages and actions of the records\<close>

text \<open>
  C4, as amended. Every record of \<open>sampleRevisions\<close> has a stage that is the id of one of
  the six entries of \<open>revisionStages\<close>: consideration, public_comment, deliberation,
  promulgated, enforcement_scheduled, enforced. Every record that \<open>filteredRevisions\<close> or
  \<open>filtered\<close> returns is a record of the snapshot it was given, so every revision
  returned from \<open>sampleRevisions\<close> has one of these six stages.
\<close>

theorem stages_of_served_records:
  "(\<forall>r \<in> set sampleRevisions. stage r \<in> set (map id_stage revisionStages))
   \<and> map id_stage revisionStages =
       [js ''consideration'', js ''public_comment'', js ''deliberation'', js ''promulgated'',
        js ''enforcement_scheduled'', js ''enforced'']
   \<and> (\<forall>r \<in> set (filteredRevisions sampleRevisions searchTerm selectedStage).
         stage r \<in> set (map id_stage revisionStages))
   \<and> set (filteredRevisions revs searchTerm selectedStage) \<subseteq> set revs
   \<and> set (filtered q process' action' now items) \<subseteq> set (present items)"
proof -
  have "set (map stage sampleRevisions) \<subseteq> set (map id_stage revisionStages)"
    unfolding sample_stages stage_ids by simp
  then have held: "\<forall>r \<in> set sampleRevisions. stage r \<in> set (map id_stage revisionStages)"
    by auto
  have sub: "set (filteredRevisions revs' searchTerm selectedStage) \<subseteq> set revs'" for revs'
    by (simp add: filteredRevisions_def)
  have served: "\<forall>r \<in> set (filteredRevisions sampleRevisions searchTerm selectedStage).
         stage r \<in> set (map id_stage revisionStages)"
    using held sub [of sampleRevisions] by blast
  have law: "set (filtered q process' action' now items) \<subseteq> set (present items)"
    by (auto simp: set_filtered set_present)
  from held stage_ids served sub [of revs] law show ?thesis by blast
qed

text \<open>
  The second sample revision is promulgated; the fourth, returned for the search term of
  the specification's example, is scheduled for enforcement.
\<close>

theorem stages_of_served_records_witness:
  "sampleRevision1 \<in> set sampleRevisions
   \<and> stage sampleRevision1 \<in> set (map id_stage revisionStages)
   \<and> sampleRevision3 \<in> set (filteredRevisions sampleRevisions kagaku_busshitsu (js ''all''))
   \<and> stage sampleRevision3 \<in> set (map id_stage revisionStages)"
proof -
  have h1: "sampleRevision1 \<in> set sampleRevisions" by (simp add: sampleRevisions_def)
  have h2: "sampleRevision3 \<in> set (filteredRevisions sampleRevisions kagaku_busshitsu (js ''all''))"
    by (simp add: filteredRevisions_def sampleRevisions_def sampleRevision3_def
        kagaku_busshitsu_def)
  from stages_of_served_records [of kagaku_busshitsu "js ''all''"] h1 h2 show ?thesis by blast
qed

text \<open>
  The first sample revision has the stage \<open>"consideration"\<close>, which is not one of the
  stage names of the specification, and \<open>filtered\<close> returns a record that has neither a
  stage nor an action.
\<close>

theorem stages_of_served_records_counterexample:
  "stage (sampleRevisions ! 0) = js ''consideration''
   \<and> js ''consideration'' \<notin> set spec_stages
   \<and> filtered [] (js ''all'') (js ''all'') ex_now [Some ex_no_action] = [ex_no_action]
   \<and> process ex_no_action = None
   \<and> action ex_no_action = None"
  by (simp add: sampleRevisions_def sampleRevision0_def spec_stages_def js_def
      filtered_sort trim_def keep_def ex_no_action_def no_fields_def)

subsection \<open>Stable ranking\<close>



subsection \<open>The query does not change the snapshot\<close>

text \<open>
  C6. Running \<open>filtered\<close> on a store leaves every array that existed before unchanged,
  the snapshot among them: the arrays it writes to, the sorted one included, are arrays it
  has allocated itself. The array it returns is a new one and holds the records that the
  function \<open>filtered\<close> computes from the snapshot. The same holds for
  \<open>filteredRevisions\<close>.
\<close>

theorem query_leaves_store_unchanged:
  assumes "items < length h" and "h ! items = map Item xs" and "revs < length g"
  shows "(case filtered_store q process' action' now items h of
            (scored, h') \<Rightarrow>
              take (length h) h' = h
              \<and> h' ! items = map Item xs
              \<and> length h \<le> scored \<and> scored < length h'
              \<and> h' ! scored = map (\<lambda>it. Item (Some it)) (filtered q process' action' now xs))
         \<and> (case filteredRevisions_store searchTerm selectedStage revs g of
            (result, g') \<Rightarrow>
              take (length g) g' = g
              \<and> g' ! revs = g ! revs
              \<and> length g \<le> result \<and> result < length g'
              \<and> g' ! result = filteredRevisions (g ! revs) searchTerm selectedStage)"
proof -
  let ?k = "map Item (map Some (present (filter (keep (trim q) process' action') xs)))"
  let ?s = "map (\<lambda>it. Scored it (score now it)) (present (filter (keep (trim q) process' action') xs))"
  let ?n = "length h"
  have a1: "array_filter (keep_cell (trim q) process' action') items h = (?n, h @ [?k])"
    using assms(2) by (simp add: array_filter_def filter_keep_cell)
  have a2: "array_map (score_cell now) ?n (h @ [?k]) = (Suc ?n, h @ [?k, ?s])"
    by (simp add: array_map_def map_score_cell del: map_map)
  have a3: "array_sort (\<lambda>x. - cell_score x) (Suc ?n) (h @ [?k, ?s]) =
              (Suc ?n, h @ [?k, sort_key (\<lambda>x. - cell_score x) ?s])"
    by (simp add: array_sort_def nth_append list_update_append)
  have a4: "array_map cell_it (Suc ?n) (h @ [?k, sort_key (\<lambda>x. - cell_score x) ?s]) =
              (Suc (Suc ?n), h @ [?k, sort_key (\<lambda>x. - cell_score x) ?s,
                 map (\<lambda>it. Item (Some it)) (filtered q process' action' now xs)])"
    by (simp add: array_map_def nth_append sort_scored_cells filtered_sort)
  have run: "filtered_store q process' action' now items h =
               (Suc (Suc ?n), h @ [?k, sort_key (\<lambda>x. - cell_score x) ?s,
                 map (\<lambda>it. Item (Some it)) (filtered q process' action' now xs)])"
    unfolding filtered_store_def Let_def a1 by (simp only: prod.case a2 a3 a4)
  have first: "case filtered_store q process' action' now items h of
            (scored, h') \<Rightarrow>
              take (length h) h' = h
              \<and> h' ! items = map Item xs
              \<and> length h \<le> scored \<and> scored < length h'
              \<and> h' ! scored = map (\<lambda>it. Item (Some it)) (filtered q process' action' now xs)"
    unfolding run using assms(1,2) by (simp add: nth_append)
  have second: "case filteredRevisions_store searchTerm selectedStage revs g of
            (result, g') \<Rightarrow>
              take (length g) g' = g
              \<and> g' ! revs = g ! revs
              \<and> length g \<le> result \<and> result < length g'
              \<and> g' ! result = filteredRevisions (g ! revs) searchTerm selectedStage"
    using assms(3)
    by (simp add: filteredRevisions_store_def array_filter_def filteredRevisions_def nth_append)
  from first second show ?thesis by blast
qed

text \<open>
  A store that holds one snapshot of two records and a \<open>null\<close> entry, and a store that
  holds two of the sample revisions.
\<close>

theorem query_leaves_store_unchanged_witness:
  "(0::nat) < length [map Item [Some ex_old150, None, Some ex_act_now]]
   \<and> [map Item [Some ex_old150, None, Some ex_act_now]] ! 0
       = map Item [Some ex_old150, None, Some ex_act_now]
   \<and> (0::nat) < length [[sampleRevision1, sampleRevision3]]
   \<and> (case filtered_store [] (js ''all'') (js ''all'') ex_now 0
              [map Item [Some ex_old150, None, Some ex_act_now]] of
         (scored, h') \<Rightarrow>
           take (length [map Item [Some ex_old150, None, Some ex_act_now]]) h'
             = [map Item [Some ex_old150, None, Some ex_act_now]]
           \<and> h' ! 0 = map Item [Some ex_old150, None, Some ex_act_now]
           \<and> length [map Item [Some ex_old150, None, Some ex_act_now]] \<le> scored
           \<and> scored < length h'
           \<and> h' ! scored
               = map (\<lambda>it. Item (Some it))
                   (filtered [] (js ''all'') (js ''all'') ex_now
                      [Some ex_old150, None, Some ex_act_now]))
   \<and> (case filteredRevisions_store kagaku_busshitsu (js ''all'') 0
              [[sampleRevision1, sampleRevision3]] of
         (result, g') \<Rightarrow>
           take (length [[sampleRevision1, sampleRevision3]]) g'
             = [[sampleRevision1, sampleRevision3]]
           \<and> g' ! 0 = [[sampleRevision1, sampleRevision3]] ! 0
           \<and> length [[sampleRevision1, sampleRevision3]] \<le> result
           \<and> result < length g'
           \<and> g' ! result
               = filteredRevisions ([[sampleRevision1, sampleRevision3]] ! 0)
                   kagaku_busshitsu (js ''all''))"
proof -
  have h1: "(0::nat) < length [map Item [Some ex_old150, None, Some ex_act_now]]" by simp
  have h2: "[map Item [Some ex_old150, None, Some ex_act_now]] ! 0
       = map Item [Some ex_old150, None, Some ex_act_now]" by simp
  have h3: "(0::nat) < length [[sampleRevision1, sampleRevision3]]" by simp
  note c = query_leaves_store_unchanged [OF h1 h2 h3, where q = "[]" and process' = "js ''all''"
      and action' = "js ''all''" and now = ex_now and searchTerm = kagaku_busshitsu
      and selectedStage = "js ''all''"]
  show ?thesis
    by (intro conjI) (rule h1 h2 h3 c [THEN conjunct1] c [THEN conjunct2])+
qed

subsection \<open>Counts per stage\<close>




subsection \<open>Records without an action\<close>

text \<open>
  C8. A record of the snapshot whose action is absent is excluded by the action selection
  \<open>"WATCH"\<close>; with the action selection \<open>"all"\<close> it is returned exactly when it passes
  the stage selection and the search text, hence always when these are unconstrained; and
  it is ranked with the urgency of \<open>WATCH\<close>, its score being 2000 plus its recency.
\<close>

theorem absent_action_filter_and_rank:
  assumes "action it = None" and "Some it \<in> set items"
  shows "it \<notin> set (filtered q process' (js ''WATCH'') now items)
         \<and> (it \<in> set (filtered q process' (js ''all'') now items)
              \<longleftrightarrow> (process' = js ''all'' \<or> process it = Some process')
                   \<and> (trim q = [] \<or> includes_js (blob it) (trim q)))
         \<and> it \<in> set (filtered [] (js ''all'') (js ''all'') now items)
         \<and> urgency it = actScore (js ''WATCH'')
         \<and> score now it = 2 * 1000 + recency now it"
proof -
  have w: "js ''WATCH'' \<noteq> js ''all''" by (simp add: js_def)
  have "it \<notin> set (filtered q process' (js ''WATCH'') now items)"
    using assms w by (simp add: set_filtered keep_Some_iff)
  moreover have "it \<in> set (filtered q process' (js ''all'') now items)
              \<longleftrightarrow> (process' = js ''all'' \<or> process it = Some process')
                   \<and> (trim q = [] \<or> includes_js (blob it) (trim q))"
    using assms by (simp add: set_filtered keep_Some_iff)
  moreover have "it \<in> set (filtered [] (js ''all'') (js ''all'') now items)"
    using assms by (simp add: set_filtered keep_Some_iff trim_def)
  moreover have u: "urgency it = actScore (js ''WATCH'')"
    using assms by (simp add: urgency_def orElse_def)
  moreover have "score now it = 2 * 1000 + recency now it"
    unfolding score_def u by (simp add: actScore_def js_def)
  ultimately show ?thesis by blast
qed

text \<open>
  A record with only a title, in a snapshot of two records.
\<close>

theorem absent_action_filter_and_rank_witness:
  "action ex_no_action = None
   \<and> Some ex_no_action \<in> set [Some ex_old200, Some ex_no_action]
   \<and> ex_no_action \<notin> set (filtered [] (js ''all'') (js ''WATCH'') ex_now
                              [Some ex_old200, Some ex_no_action])
   \<and> ex_no_action \<in> set (filtered [] (js ''all'') (js ''all'') ex_now
                              [Some ex_old200, Some ex_no_action])
   \<and> score ex_now ex_no_action = 2 * 1000 + recency ex_now ex_no_action"
proof -
  have h1: "action ex_no_action = None" by (simp add: ex_defs)
  have h2: "Some ex_no_action \<in> set [Some ex_old200, Some ex_no_action]" by simp
  from absent_action_filter_and_rank [OF h1 h2, of "[]" "js ''all''" ex_now] h1 h2
  show ?thesis by blast
qed

subsection \<open>Records without a date\<close>



subsection \<open>Recency is symmetric and saturates\<close>

text \<open>
  C10. The recency of a record is 100 minus the absolute number of whole days between
  \<open>updated_at\<close> and today, capped at 100. So two records of the same urgency have the same
  score when one is dated as far in the future as the other in the past, when both are
  100 days or more away from today, and whenever their distances in whole days are equal.
\<close>

theorem recency_symmetric_saturating:
  "recency now it = 100 - min 100 (\<bar>(case updated_at it of None \<Rightarrow> now | Some t \<Rightarrow> t) - now\<bar> div 86400000)
   \<and> (updated_at x = Some (now + d) \<and> updated_at y = Some (now - d) \<and> urgency x = urgency y
        \<longrightarrow> score now x = score now y)
   \<and> (urgency x = urgency y \<and> 100 \<le> days now x \<and> 100 \<le> days now y
        \<longrightarrow> score now x = score now y)
   \<and> (urgency x = urgency y \<and> days now x = days now y \<longrightarrow> score now x = score now y)"
  by (auto simp: score_def recency_def days_def daysBetween_def Let_def)

text \<open>
  Two \<open>WATCH\<close> records 200 and 150 days old have the same score, and so have a record
  dated five days ahead and one dated five days back.
\<close>

theorem recency_symmetric_saturating_witness:
  "urgency ex_old200 = urgency ex_old150
   \<and> 100 \<le> days ex_now ex_old200 \<and> 100 \<le> days ex_now ex_old150
   \<and> score ex_now ex_old200 = score ex_now ex_old150
   \<and> updated_at (ex_undated\<lparr>updated_at := Some (ex_now + 432000000)\<rparr>)
       = Some (ex_now + 432000000)
   \<and> updated_at (ex_undated\<lparr>updated_at := Some (ex_now - 432000000)\<rparr>)
       = Some (ex_now - 432000000)
   \<and> score ex_now (ex_undated\<lparr>updated_at := Some (ex_now + 432000000)\<rparr>)
       = score ex_now (ex_undated\<lparr>updated_at := Some (ex_now - 432000000)\<rparr>)"
proof -
  have u: "urgency ex_old200 = urgency ex_old150" by (simp add: ex_defs urgency_def)
  have d: "100 \<le> days ex_now ex_old200" "100 \<le> days ex_now ex_old150"
    by (simp_all add: ex_defs days_def daysBetween_def)
  have s: "score ex_now ex_old200 = score ex_now ex_old150"
    using recency_symmetric_saturating [of ex_now ex_old200 ex_old200 0 ex_old150] u d by blast
  let ?x = "ex_undated\<lparr>updated_at := Some (ex_now + 432000000)\<rparr>"
  let ?y = "ex_undated\<lparr>updated_at := Some (ex_now - 432000000)\<rparr>"
  have f: "updated_at ?x = Some (ex_now + 432000000)" "updated_at ?y = Some (ex_now - 432000000)"
    by simp_all
  have v: "urgency ?x = urgency ?y" by (simp add: urgency_def)
  have "score ex_now ?x = score ex_now ?y"
    using recency_symmetric_saturating [of ex_now ?x ?x 432000000 ?y] f v by blast
  with u d s f show ?thesis by blast
qed

end
